theory Spec2Isabelle
  imports Complex_Main
begin

section \<open>Values and errors\<close>

text \<open>
  A Python \<open>float\<close> is kept as the real number it denotes, or one of the three special
  values.  Only comparisons against the declared bounds are ever computed on floats, and
  those agree with the comparisons of the reals; the rounding of a decimal literal to
  binary64 is not part of the model (the parsers below are parameters).
  A Python \<open>str\<close> is a \<open>string\<close>, one \<open>char\<close> per code point up to U+00FF.
\<close>

datatype pyfloat = Finite real | PosInf | NegInf | NaN

fun float_le :: "pyfloat \<Rightarrow> real \<Rightarrow> bool" where
  "float_le (Finite x) b = (x \<le> b)"
| "float_le NegInf b = True"
| "float_le PosInf b = False"
| "float_le NaN b = False"

fun float_ge :: "pyfloat \<Rightarrow> real \<Rightarrow> bool" where
  "float_ge (Finite x) b = (b \<le> x)"
| "float_ge PosInf b = True"
| "float_ge NegInf b = False"
| "float_ge NaN b = False"

text \<open>The kinds of entry of a pydantic \<open>ValidationError\<close>, with the path of the field.\<close>

datatype verr_kind =
  missing | invalid_type | parsing | int_from_float | finite_number
  | less_than_equal | greater_than_equal | enum | value_error

type_synonym verr = "string list \<times> verr_kind"

datatype error =
  ValidationError "verr list"
  | TypeError
  | CsvError
  | OSError
  | YAMLError
  | NetworkError
  | InfluxError

text \<open>
  What \<open>yaml.safe_load\<close> hands to the models: null, numbers, strings, sequences
  and mappings with string keys.  A \<open>dict\<close> is a map from its keys to their values.
\<close>

datatype yaml =
  YNull | YInt int | YFloat pyfloat | YStr string | YSeq "yaml list"
  | YMap "string \<Rightarrow> yaml option"

text \<open>
  The outcome of validating one field or one model: a value, entries for the
  \<open>ValidationError\<close> that pydantic collects over all fields, or an exception that is
  not a validation error and leaves validation at once.
\<close>

datatype 'a vres = Ok 'a | Invalid "verr list" | Raise error

fun ap :: "('a \<Rightarrow> 'b) vres \<Rightarrow> 'a vres \<Rightarrow> 'b vres" where
  "ap (Raise e) x = Raise e"
| "ap (Ok g) (Ok a) = Ok (g a)"
| "ap (Ok g) (Invalid es) = Invalid es"
| "ap (Ok g) (Raise e) = Raise e"
| "ap (Invalid es) (Ok a) = Invalid es"
| "ap (Invalid es) (Invalid es') = Invalid (es @ es')"
| "ap (Invalid es) (Raise e) = Raise e"

fun construct :: "'a vres \<Rightarrow> error + 'a" where
  "construct (Ok a) = Inr a"
| "construct (Invalid es) = Inl (ValidationError es)"
| "construct (Raise e) = Inl e"

text \<open>The entries collected in an outcome, and whether it is no exception.\<close>

fun errors_of :: "'a vres \<Rightarrow> verr list" where
  "errors_of (Invalid es) = es"
| "errors_of r = []"

fun no_raise :: "'a vres \<Rightarrow> bool" where
  "no_raise (Raise e) = False"
| "no_raise r = True"

fun at_loc :: "string \<Rightarrow> 'a vres \<Rightarrow> 'a vres" where
  "at_loc name (Invalid es) = Invalid (map (\<lambda>(loc, k). (name # loc, k)) es)"
| "at_loc name r = r"

definition required :: "(string \<rightharpoonup> 'v) \<Rightarrow> string \<Rightarrow> ('v \<Rightarrow> 'a vres) \<Rightarrow> 'a vres" where
  "required d name validator =
     (case d name of
        None \<Rightarrow> Invalid [([name], missing)]
      | Some v \<Rightarrow> at_loc name (validator v))"

definition with_default ::
  "(string \<rightharpoonup> 'v) \<Rightarrow> string \<Rightarrow> 'a \<Rightarrow> ('v \<Rightarrow> 'a vres) \<Rightarrow> 'a vres" where
  "with_default d name dflt validator =
     (case d name of
        None \<Rightarrow> Ok dflt
      | Some v \<Rightarrow> at_loc name (validator v))"


section \<open>Library functions taken as parameters\<close>

text \<open>
  The text-to-value conversions of Python, pydantic, PyYAML and the JSON serialiser are
  not code of this repository.  Every function below takes them as one record, and every
  theorem holds for all of them.  \<open>'dt\<close> is the type of \<open>datetime\<close> values.
\<close>

record 'dt lib =
  py_float :: "string \<Rightarrow> pyfloat option"   \<comment> \<open>\<open>float(s)\<close>; \<open>None\<close> is \<open>ValueError\<close>\<close>
  str_float :: "string \<Rightarrow> pyfloat option"  \<comment> \<open>pydantic, \<open>str\<close> to a \<open>float\<close> field\<close>
  str_int :: "string \<Rightarrow> int option"  \<comment> \<open>pydantic, \<open>str\<close> to an \<open>int\<close> field\<close>
  str_datetime :: "string \<Rightarrow> 'dt option"  \<comment> \<open>pydantic, \<open>str\<close> to a \<open>datetime\<close> field\<close>
  lax_enum :: "yaml \<Rightarrow> int option"  \<comment> \<open>pydantic, a value that is not an \<open>int\<close> to an \<open>IntEnum\<close> field\<close>
  safe_load :: "string \<Rightarrow> error + yaml"  \<comment> \<open>\<open>yaml.safe_load\<close>\<close>
  json_str :: "string \<Rightarrow> string"  \<comment> \<open>a \<open>str\<close> in \<open>model_dump_json\<close>, quotes included\<close>
  json_float :: "pyfloat \<Rightarrow> string"  \<comment> \<open>a \<open>float\<close> in \<open>model_dump_json\<close>\<close>
  json_datetime :: "'dt \<Rightarrow> string"  \<comment> \<open>a \<open>datetime\<close> in \<open>model_dump_json\<close>, quotes included\<close>

section \<open>Field validators of the configuration models\<close>

fun str_validator :: "yaml \<Rightarrow> string vres" where
  "str_validator (YStr s) = Ok s"
| "str_validator v = Invalid [([], invalid_type)]"

fun optional_str_validator :: "yaml \<Rightarrow> string option vres" where
  "optional_str_validator YNull = Ok None"
| "optional_str_validator (YStr s) = Ok (Some s)"
| "optional_str_validator v = Invalid [([], invalid_type)]"

fun int_validator :: "'dt lib \<Rightarrow> yaml \<Rightarrow> int vres" where
  "int_validator L (YInt i) = Ok i"
| "int_validator L (YFloat (Finite r)) =
     (if of_int \<lfloor>r\<rfloor> = r then Ok \<lfloor>r\<rfloor> else Invalid [([], int_from_float)])"
| "int_validator L (YFloat f) = Invalid [([], finite_number)]"
| "int_validator L (YStr s) =
     (case str_int L s of None \<Rightarrow> Invalid [([], parsing)] | Some i \<Rightarrow> Ok i)"
| "int_validator L v = Invalid [([], invalid_type)]"

fun float_validator :: "'dt lib \<Rightarrow> yaml \<Rightarrow> pyfloat vres" where
  "float_validator L (YFloat f) = Ok f"
| "float_validator L (YInt i) = Ok (Finite (of_int i))"
| "float_validator L (YStr s) =
     (case str_float L s of None \<Rightarrow> Invalid [([], parsing)] | Some f \<Rightarrow> Ok f)"
| "float_validator L v = Invalid [([], invalid_type)]"

text \<open>\<open>Field(ge=lo, le=hi)\<close> on an \<open>int\<close> and on a \<open>float\<close> field.\<close>

definition int_field :: "'dt lib \<Rightarrow> int \<Rightarrow> int \<Rightarrow> yaml \<Rightarrow> int vres" where
  "int_field L lo hi v =
     (case int_validator L v of
        Ok i \<Rightarrow>
          if \<not> i \<le> hi then Invalid [([], less_than_equal)]
          else if \<not> lo \<le> i then Invalid [([], greater_than_equal)]
          else Ok i
      | r \<Rightarrow> r)"

definition float_field :: "'dt lib \<Rightarrow> real \<Rightarrow> real \<Rightarrow> yaml \<Rightarrow> pyfloat vres" where
  "float_field L lo hi v =
     (case float_validator L v of
        Ok f \<Rightarrow>
          if \<not> float_le f hi then Invalid [([], less_than_equal)]
          else if \<not> float_ge f lo then Invalid [([], greater_than_equal)]
          else Ok f
      | r \<Rightarrow> r)"

section \<open>The configuration models\<close>

record InfluxDBConfig =
  host :: string
  port :: int
  database :: string
  retention_policy :: "string option"

datatype CBaseTrackingParam =
  FIXED | Y_AXIS_TRACKING | X_AXIS_TRACKING | DUAL_AXIS_TRACKING

fun int_value :: "CBaseTrackingParam \<Rightarrow> int" where
  "int_value FIXED = 0"
| "int_value Y_AXIS_TRACKING = 1"
| "int_value X_AXIS_TRACKING = 2"
| "int_value DUAL_AXIS_TRACKING = 3"

definition tracking_of_int :: "int \<Rightarrow> CBaseTrackingParam vres" where
  "tracking_of_int i =
     (if i = 0 then Ok FIXED
      else if i = 1 then Ok Y_AXIS_TRACKING
      else if i = 2 then Ok X_AXIS_TRACKING
      else if i = 3 then Ok DUAL_AXIS_TRACKING
      else Invalid [([], enum)])"

fun tracking_validator :: "'dt lib \<Rightarrow> yaml \<Rightarrow> CBaseTrackingParam vres" where
  "tracking_validator L (YInt i) = tracking_of_int i"
| "tracking_validator L v =
     (case lax_enum L v of None \<Rightarrow> Invalid [([], enum)] | Some i \<Rightarrow> tracking_of_int i)"

record CBaseSystemParams =
  latitude :: pyfloat
  longitude :: pyfloat
  slope :: int
  azimuth :: int
  tracking :: CBaseTrackingParam
  panel_output :: int
  panel_quantity :: int
  inverter_capacity :: int

record CBaseConfig =
  api_host :: string
  system :: CBaseSystemParams

record AppConfig =
  influxdb :: InfluxDBConfig
  cbase :: CBaseConfig

text \<open>
  Validation of a model from a \<open>dict\<close>: the fields in the order of the class body, each
  looked up under its own name (the models declare serialization aliases only), a field
  without a default required.  \<open>retention_policy: Optional[str]\<close> has no default.
\<close>

definition validate_InfluxDBConfig ::
  "'dt lib \<Rightarrow> (string \<rightharpoonup> yaml) \<Rightarrow> InfluxDBConfig vres" where
  "validate_InfluxDBConfig L d =
     ap (ap (ap (ap (Ok (\<lambda>h p db rp.
          \<lparr>host = h, port = p, database = db, retention_policy = rp\<rparr>))
       (required d ''host'' str_validator))
       (with_default d ''port'' 8086 (int_validator L)))
       (with_default d ''database'' ''cbase'' str_validator))
       (required d ''retention_policy'' optional_str_validator)"

definition validate_CBaseSystemParams ::
  "'dt lib \<Rightarrow> (string \<rightharpoonup> yaml) \<Rightarrow> CBaseSystemParams vres" where
  "validate_CBaseSystemParams L d =
     ap (ap (ap (ap (ap (ap (ap (ap (Ok (\<lambda>la lo sl az tr po pq ic.
          \<lparr>latitude = la, longitude = lo, slope = sl, azimuth = az, tracking = tr,
           panel_output = po, panel_quantity = pq, inverter_capacity = ic\<rparr>))
       (required d ''latitude'' (float_field L (-90) 90)))
       (required d ''longitude'' (float_field L (-90) 90)))
       (required d ''slope'' (int_field L 0 90)))
       (required d ''azimuth'' (int_field L 0 359)))
       (with_default d ''tracking'' FIXED (tracking_validator L)))
       (required d ''panel_output'' (int_field L 0 1000)))
       (required d ''panel_quantity'' (int_field L 0 1000)))
       (with_default d ''inverter_capacity'' 0 (int_field L 0 100000))"

fun model_validator :: "((string \<rightharpoonup> yaml) \<Rightarrow> 'a vres) \<Rightarrow> yaml \<Rightarrow> 'a vres" where
  "model_validator validate (YMap d) = validate d"
| "model_validator validate v = Invalid [([], invalid_type)]"

definition validate_CBaseConfig :: "'dt lib \<Rightarrow> (string \<rightharpoonup> yaml) \<Rightarrow> CBaseConfig vres" where
  "validate_CBaseConfig L d =
     ap (ap (Ok (\<lambda>h s. \<lparr>api_host = h, system = s\<rparr>))
       (required d ''api_host'' str_validator))
       (required d ''system'' (model_validator (validate_CBaseSystemParams L)))"

definition validate_AppConfig :: "'dt lib \<Rightarrow> (string \<rightharpoonup> yaml) \<Rightarrow> AppConfig vres" where
  "validate_AppConfig L d =
     ap (ap (Ok (\<lambda>i c. \<lparr>influxdb = i, cbase = c\<rparr>))
       (required d ''influxdb'' (model_validator (validate_InfluxDBConfig L))))
       (required d ''cbase'' (model_validator (validate_CBaseConfig L)))"

text \<open>\<open>AppConfig(**config)\<close>: unpacking anything but a mapping is a \<open>TypeError\<close>.\<close>

fun load_AppConfig :: "'dt lib \<Rightarrow> yaml \<Rightarrow> error + AppConfig" where
  "load_AppConfig L (YMap d) = construct (validate_AppConfig L d)"
| "load_AppConfig L v = Inl TypeError"

text \<open>
  \<open>cbase_config.system.model_dump(by_alias=True)\<close> followed by
  \<open>params["apikey"] = API_KEY\<close>: the items of the query-parameter \<open>dict\<close>, in order.
\<close>

datatype param = PFloat pyfloat | PInt int | PTracking CBaseTrackingParam | PStr string

definition model_dump_by_alias :: "CBaseSystemParams \<Rightarrow> (string \<times> param) list" where
  "model_dump_by_alias s =
     [(''lat'', PFloat (latitude s)),
      (''lon'', PFloat (longitude s)),
      (''slope'', PInt (slope s)),
      (''azi'', PInt (azimuth s)),
      (''tracking'', PTracking (tracking s)),
      (''panel_out'', PInt (panel_output s)),
      (''panel_qty'', PInt (panel_quantity s)),
      (''inv_cap'', PInt (inverter_capacity s))]"

definition query_params :: "CBaseSystemParams \<Rightarrow> string \<Rightarrow> (string \<times> param) list" where
  "query_params s API_KEY = model_dump_by_alias s @ [(''apikey'', PStr API_KEY)]"


section \<open>Reading the CSV text\<close>

text \<open>\<open>sep.join(xs)\<close>.\<close>

fun join :: "string \<Rightarrow> string list \<Rightarrow> string" where
  "join sep [] = []"
| "join sep [x] = x"
| "join sep (x # y # ys) = x @ sep @ join sep (y # ys)"

text \<open>
  \<open>str.splitlines()\<close>: a line ends at a line boundary, \<open>\r\n\<close> counts as one, the
  boundaries are dropped, and no empty line follows a final boundary.  The line boundaries
  among the code points up to U+00FF are listed.
\<close>

definition is_linebreak :: "char \<Rightarrow> bool" where
  "is_linebreak c =
     (c \<in> {CHR 0x0A, CHR 0x0B, CHR 0x0C, CHR 0x0D, CHR 0x1C, CHR 0x1D, CHR 0x1E, CHR 0x85})"

function splitlines :: "string \<Rightarrow> string list" where
  "splitlines [] = []"
| "splitlines (c # cs) =
     takeWhile (\<lambda>x. \<not> is_linebreak x) (c # cs) #
       (case dropWhile (\<lambda>x. \<not> is_linebreak x) (c # cs) of
          [] \<Rightarrow> []
        | [b] \<Rightarrow> []
        | b # d # r \<Rightarrow>
            if b = CHR 0x0D \<and> d = CHR 0x0A then splitlines r else splitlines (d # r))"
  by pat_completeness auto
termination
proof (relation "measure length")
  show "wf (measure length)" by simp
next
  fix c :: char and cs x21 x22 x21a x22a
  assume "dropWhile (\<lambda>x. \<not> is_linebreak x) (c # cs) = x21 # x22" "x22 = x21a # x22a"
  then have "length (x21 # x21a # x22a) \<le> length (c # cs)"
    using length_dropWhile_le [of "\<lambda>x. \<not> is_linebreak x" "c # cs"] by simp
  then show "(x22a, c # cs) \<in> measure length" by simp
next
  fix c :: char and cs x21 x22 x21a x22a
  assume "dropWhile (\<lambda>x. \<not> is_linebreak x) (c # cs) = x21 # x22" "x22 = x21a # x22a"
  then have "length (x21 # x21a # x22a) \<le> length (c # cs)"
    using length_dropWhile_le [of "\<lambda>x. \<not> is_linebreak x" "c # cs"] by simp
  then show "(x21a # x22a, c # cs) \<in> measure length" by simp
qed

text \<open>
  The second equation rewrites its own right-hand side, so it is not a default
  simplification rule.
\<close>

declare splitlines.simps(2) [simp del]

text \<open>
  \<open>csv.reader\<close> with the default dialect (delimiter \<open>,\<close>, quote character \<open>"\<close>,
  doubled quotes, no escape character, not strict), as the state machine of CPython's
  \<open>_csv\<close> module.  A character is \<open>Some c\<close>; \<open>None\<close> is the end of a line.
\<close>

datatype ParserState =
  START_RECORD | START_FIELD | IN_FIELD | IN_QUOTED_FIELD | QUOTE_IN_QUOTED_FIELD | EAT_CRNL

record Reader =
  rd_state :: ParserState
  rd_field :: string
  rd_fields :: "string list"

definition field_limit :: nat where
  "field_limit = 131072"

definition parse_reset :: Reader where
  "parse_reset = \<lparr>rd_state = START_RECORD, rd_field = [], rd_fields = []\<rparr>"

definition parse_save_field :: "Reader \<Rightarrow> Reader" where
  "parse_save_field r = r\<lparr>rd_fields := rd_fields r @ [rd_field r], rd_field := []\<rparr>"

definition parse_add_char :: "Reader \<Rightarrow> char \<Rightarrow> error + Reader" where
  "parse_add_char r c =
     (if length (rd_field r) \<ge> field_limit then Inl CsvError
      else Inr (r\<lparr>rd_field := rd_field r @ [c]\<rparr>))"

definition set_state :: "ParserState \<Rightarrow> error + Reader \<Rightarrow> error + Reader" where
  "set_state st x = (case x of Inl e \<Rightarrow> Inl e | Inr r \<Rightarrow> Inr (r\<lparr>rd_state := st\<rparr>))"

definition is_newline :: "char option \<Rightarrow> bool" where
  "is_newline c = (c = Some (CHR 0x0A) \<or> c = Some (CHR 0x0D))"

definition start_field :: "Reader \<Rightarrow> char option \<Rightarrow> error + Reader" where
  "start_field r c =
     (case c of
        None \<Rightarrow> Inr ((parse_save_field r)\<lparr>rd_state := START_RECORD\<rparr>)
      | Some ch \<Rightarrow>
          if is_newline c then Inr ((parse_save_field r)\<lparr>rd_state := EAT_CRNL\<rparr>)
          else if ch = CHR 0x22 then Inr (r\<lparr>rd_state := IN_QUOTED_FIELD\<rparr>)
          else if ch = CHR '','' then Inr (parse_save_field r)
          else set_state IN_FIELD (parse_add_char r ch))"

fun parse_process_char :: "Reader \<Rightarrow> char option \<Rightarrow> error + Reader" where
  "parse_process_char r c =
     (case rd_state r of
        START_RECORD \<Rightarrow>
          if c = None then Inr r
          else if is_newline c then Inr (r\<lparr>rd_state := EAT_CRNL\<rparr>)
          else start_field (r\<lparr>rd_state := START_FIELD\<rparr>) c
      | START_FIELD \<Rightarrow> start_field r c
      | IN_FIELD \<Rightarrow>
          (case c of
             None \<Rightarrow> Inr ((parse_save_field r)\<lparr>rd_state := START_RECORD\<rparr>)
           | Some ch \<Rightarrow>
               if is_newline c then Inr ((parse_save_field r)\<lparr>rd_state := EAT_CRNL\<rparr>)
               else if ch = CHR '','' then Inr ((parse_save_field r)\<lparr>rd_state := START_FIELD\<rparr>)
               else parse_add_char r ch)
      | IN_QUOTED_FIELD \<Rightarrow>
          (case c of
             None \<Rightarrow> Inr r
           | Some ch \<Rightarrow>
               if ch = CHR 0x22 then Inr (r\<lparr>rd_state := QUOTE_IN_QUOTED_FIELD\<rparr>)
               else parse_add_char r ch)
      | QUOTE_IN_QUOTED_FIELD \<Rightarrow>
          (case c of
             None \<Rightarrow> Inr ((parse_save_field r)\<lparr>rd_state := START_RECORD\<rparr>)
           | Some ch \<Rightarrow>
               if ch = CHR 0x22 then set_state IN_QUOTED_FIELD (parse_add_char r ch)
               else if ch = CHR '','' then Inr ((parse_save_field r)\<lparr>rd_state := START_FIELD\<rparr>)
               else if is_newline c then Inr ((parse_save_field r)\<lparr>rd_state := EAT_CRNL\<rparr>)
               else set_state IN_FIELD (parse_add_char r ch))
      | EAT_CRNL \<Rightarrow>
          if is_newline c then Inr r
          else if c = None then Inr (r\<lparr>rd_state := START_RECORD\<rparr>)
          else Inl CsvError)"

text \<open>One line of the input: its characters, then the end of the line.\<close>

fun process_line :: "Reader \<Rightarrow> string \<Rightarrow> error + Reader" where
  "process_line r [] = parse_process_char r None"
| "process_line r (c # cs) =
     (case parse_process_char r (Some c) of
        Inl e \<Rightarrow> Inl e
      | Inr r' \<Rightarrow> process_line r' cs)"

text \<open>
  The records the reader yields over the lines, in order, and the \<open>csv.Error\<close> that ends
  the iteration, if one does.  A record is complete when a line leaves the reader in
  \<open>START_RECORD\<close>; when the lines end inside a quoted field, the fields read so far are
  the last record.
\<close>

fun reader_records :: "Reader \<Rightarrow> string list \<Rightarrow> string list list \<times> error option" where
  "reader_records r [] =
     (if rd_field r \<noteq> [] \<or> rd_state r = IN_QUOTED_FIELD
      then ([rd_fields (parse_save_field r)], None)
      else ([], None))"
| "reader_records r (l # ls) =
     (case process_line r l of
        Inl e \<Rightarrow> ([], Some e)
      | Inr r' \<Rightarrow>
          if rd_state r' = START_RECORD
          then (case reader_records parse_reset ls of (recs, e) \<Rightarrow> (rd_fields r' # recs, e))
          else reader_records r' ls)"

definition reader :: "string list \<Rightarrow> string list list \<times> error option" where
  "reader lines = reader_records parse_reset lines"

text \<open>
  \<open>csv.DictReader\<close>: the first record is \<open>fieldnames\<close>, empty records are skipped, and a
  row is \<open>dict(zip(fieldnames, row))\<close>, with the surplus values of a long row under the
  key \<open>None\<close> and the missing values of a short row set to \<open>None\<close>.
\<close>

datatype cell = Str string | NoneCell | ListCell "string list"

type_synonym row = "string option \<rightharpoonup> cell"

definition dict_row :: "string list \<Rightarrow> string list \<Rightarrow> row" where
  "dict_row fieldnames r =
     (let d = Map.empty(map Some fieldnames [\<mapsto>] map Str r);
          lf = length fieldnames; lr = length r
      in if lf < lr then d(None \<mapsto> ListCell (drop lf r))
         else if lf > lr
           then d(map Some (drop lr fieldnames) [\<mapsto>] replicate (lf - lr) NoneCell)
         else d)"

fun DictReader :: "string list list \<times> error option \<Rightarrow> row list \<times> error option" where
  "DictReader ([], e) = ([], e)"
| "DictReader (fieldnames # recs, e) =
     (map (dict_row fieldnames) (filter (\<lambda>r. r \<noteq> []) recs), e)"


text \<open>
  The rows a CSV text gives, up to the error of the reader if there is one.
\<close>

definition csv_rows :: "string \<Rightarrow> row list" where
  "csv_rows csv_text = fst (DictReader (reader (splitlines csv_text)))"

subsection \<open>CSV text written without quotes\<close>

text \<open>
  To state what the reader does on ordinary input: a record is written as its cells
  joined by commas, a text as its records, each followed by a newline (the last newline
  may be missing).  A plain cell has no comma, no quote and no line boundary and is
  within the reader's field limit.  A record that is not one empty cell is written as a
  line that is not blank.
\<close>

definition plain_char :: "char \<Rightarrow> bool" where
  "plain_char c = (\<not> is_linebreak c \<and> c \<noteq> CHR '','' \<and> c \<noteq> CHR 0x22)"

definition plain_cell :: "string \<Rightarrow> bool" where
  "plain_cell s = (list_all plain_char s \<and> length s \<le> field_limit)"

definition plain_record :: "string list \<Rightarrow> bool" where
  "plain_record r = (r \<noteq> [] \<and> r \<noteq> [[]] \<and> list_all plain_cell r)"

definition csv_line :: "string list \<Rightarrow> string" where
  "csv_line r = join '','' r"

definition plain_csv :: "string list list \<Rightarrow> string" where
  "plain_csv recs = concat (map (\<lambda>r. csv_line r @ [CHR 0x0A]) recs)"

section \<open>The response record\<close>

record 'dt CBaseResponseData =
  Time_UTC :: "'dt"
  temp_avg :: pyfloat
  wind_avg :: pyfloat
  cl_tot :: pyfloat
  cl_low :: pyfloat
  cl_med :: pyfloat
  cl_high :: pyfloat
  prec_amt :: pyfloat
  s_glob :: pyfloat
  s_dif :: pyfloat
  s_dir_hor :: pyfloat
  s_dir :: pyfloat
  s_sw_net :: pyfloat
  solar_angle_vs_panel :: pyfloat
  albedo :: pyfloat
  s_glob_pv :: pyfloat
  s_ground_dif_pv :: pyfloat
  s_dir_pv :: pyfloat
  s_dif_pv :: pyfloat
  pv_po :: pyfloat
  pv_T :: "pyfloat option"
  pv_eta :: "pyfloat option"

text \<open>
  The values a row of \<open>DictReader\<close> gives a field.  A cell of the CSV is a \<open>str\<close>, and
  pydantic converts it for a \<open>float\<close> or \<open>datetime\<close> field; the value \<open>None\<close> of a short
  row is no number and no date.
\<close>

fun cell_float_validator :: "'dt lib \<Rightarrow> cell \<Rightarrow> pyfloat vres" where
  "cell_float_validator L (Str s) =
     (case str_float L s of None \<Rightarrow> Invalid [([], parsing)] | Some f \<Rightarrow> Ok f)"
| "cell_float_validator L v = Invalid [([], invalid_type)]"

fun datetime_validator :: "'dt lib \<Rightarrow> cell \<Rightarrow> 'dt vres" where
  "datetime_validator L (Str s) =
     (case str_datetime L s of None \<Rightarrow> Invalid [([], parsing)] | Some t \<Rightarrow> Ok t)"
| "datetime_validator L v = Invalid [([], invalid_type)]"

text \<open>
  The validator of \<open>pv_T\<close> and \<open>pv_eta\<close>, run before pydantic's own:
  \<open>None if value == "NA" else float(value)\<close>.  A \<open>ValueError\<close> of \<open>float\<close> becomes an
  entry of the validation error; \<open>float(None)\<close> is a \<open>TypeError\<close>, which pydantic does
  not catch.  The result, a \<open>float\<close> or \<open>None\<close>, passes the field's \<open>float | None\<close>.
\<close>

fun parse_na :: "'dt lib \<Rightarrow> cell \<Rightarrow> pyfloat option vres" where
  "parse_na L (Str v) =
     (if v = ''NA'' then Ok None
      else case py_float L v of None \<Rightarrow> Invalid [([], value_error)] | Some f \<Rightarrow> Ok (Some f))"
| "parse_na L v = Raise TypeError"

text \<open>
  Validation of the keyword arguments: every field is required, \<open>Time_UTC\<close> is read from
  its alias \<open>Time.UTC\<close>, keys that name no field are ignored.
\<close>

definition validate_CBaseResponseData ::
  "'dt lib \<Rightarrow> (string \<rightharpoonup> cell) \<Rightarrow> 'dt CBaseResponseData vres" where
  "validate_CBaseResponseData L kw =
     ap (ap (ap (ap (ap (ap (ap (ap (ap (ap (ap (ap (ap (ap (ap (ap (ap (ap (ap (ap (ap (ap
       (Ok (\<lambda>t x1 x2 x3 x4 x5 x6 x7 x8 x9 x10 x11 x12 x13 x14 x15 x16 x17 x18 x19 pt pe.
          \<lparr>Time_UTC = t, temp_avg = x1, wind_avg = x2, cl_tot = x3, cl_low = x4,
          cl_med = x5, cl_high = x6, prec_amt = x7, s_glob = x8, s_dif = x9, s_dir_hor =
          x10, s_dir = x11, s_sw_net = x12, solar_angle_vs_panel = x13, albedo = x14,
          s_glob_pv = x15, s_ground_dif_pv = x16, s_dir_pv = x17, s_dif_pv = x18, pv_po =
          x19, pv_T = pt, pv_eta = pe\<rparr>))
       (required kw ''Time.UTC'' (datetime_validator L)))
       (required kw ''temp_avg'' (cell_float_validator L)))
       (required kw ''wind_avg'' (cell_float_validator L)))
       (required kw ''cl_tot'' (cell_float_validator L)))
       (required kw ''cl_low'' (cell_float_validator L)))
       (required kw ''cl_med'' (cell_float_validator L)))
       (required kw ''cl_high'' (cell_float_validator L)))
       (required kw ''prec_amt'' (cell_float_validator L)))
       (required kw ''s_glob'' (cell_float_validator L)))
       (required kw ''s_dif'' (cell_float_validator L)))
       (required kw ''s_dir_hor'' (cell_float_validator L)))
       (required kw ''s_dir'' (cell_float_validator L)))
       (required kw ''s_sw_net'' (cell_float_validator L)))
       (required kw ''solar_angle_vs_panel'' (cell_float_validator L)))
       (required kw ''albedo'' (cell_float_validator L)))
       (required kw ''s_glob_pv'' (cell_float_validator L)))
       (required kw ''s_ground_dif_pv'' (cell_float_validator L)))
       (required kw ''s_dir_pv'' (cell_float_validator L)))
       (required kw ''s_dif_pv'' (cell_float_validator L)))
       (required kw ''pv_po'' (cell_float_validator L)))
       (required kw ''pv_T'' (parse_na L)))
       (required kw ''pv_eta'' (parse_na L))"

text \<open>
  \<open>CBaseResponseData(**row)\<close>: a key that is not a \<open>str\<close> (the \<open>None\<close> of a long row)
  is a \<open>TypeError\<close> of the call itself.
\<close>

definition new_CBaseResponseData :: "'dt lib \<Rightarrow> row \<Rightarrow> error + 'dt CBaseResponseData" where
  "new_CBaseResponseData L r =
     (if r None \<noteq> None then Inl TypeError
      else construct (validate_CBaseResponseData L (\<lambda>k. r (Some k))))"

text \<open>
  \<open>[CBaseResponseData(**row) for row in reader]\<close>: the rows are read and validated one
  after the other; the first exception, of a row or of the reader, ends the comprehension.
\<close>

fun validate_rows ::
  "'dt lib \<Rightarrow> row list \<Rightarrow> error option \<Rightarrow> error + 'dt CBaseResponseData list" where
  "validate_rows L [] None = Inr []"
| "validate_rows L [] (Some e) = Inl e"
| "validate_rows L (r # rs) e =
     (case new_CBaseResponseData L r of
        Inl err \<Rightarrow> Inl err
      | Inr data \<Rightarrow>
          (case validate_rows L rs e of
             Inl err \<Rightarrow> Inl err
           | Inr rest \<Rightarrow> Inr (data # rest)))"

definition parse_csv :: "'dt lib \<Rightarrow> string \<Rightarrow> error + 'dt CBaseResponseData list" where
  "parse_csv L csv_text =
     (case DictReader (reader (splitlines csv_text)) of
        (rows, e) \<Rightarrow> validate_rows L rows e)"

section \<open>Points\<close>

record 'dt InfluxDBPoint =
  measurement :: string
  tags :: "(string \<times> string) list option"
  fields' :: "(string \<times> pyfloat) list"
  time :: "'dt"

text \<open>
  \<open>data.model_dump(exclude={"Time_UTC"})\<close>: the items of the \<open>dict\<close>, every field but
  \<open>Time_UTC\<close> under its own name, in the order of the class body.
\<close>

definition model_dump_exclude_Time_UTC ::
  "'dt CBaseResponseData \<Rightarrow> (string \<times> pyfloat option) list" where
  "model_dump_exclude_Time_UTC data =
     [(''temp_avg'', Some (temp_avg data)),
      (''wind_avg'', Some (wind_avg data)),
      (''cl_tot'', Some (cl_tot data)),
      (''cl_low'', Some (cl_low data)),
      (''cl_med'', Some (cl_med data)),
      (''cl_high'', Some (cl_high data)),
      (''prec_amt'', Some (prec_amt data)),
      (''s_glob'', Some (s_glob data)),
      (''s_dif'', Some (s_dif data)),
      (''s_dir_hor'', Some (s_dir_hor data)),
      (''s_dir'', Some (s_dir data)),
      (''s_sw_net'', Some (s_sw_net data)),
      (''solar_angle_vs_panel'', Some (solar_angle_vs_panel data)),
      (''albedo'', Some (albedo data)),
      (''s_glob_pv'', Some (s_glob_pv data)),
      (''s_ground_dif_pv'', Some (s_ground_dif_pv data)),
      (''s_dir_pv'', Some (s_dir_pv data)),
      (''s_dif_pv'', Some (s_dif_pv data)),
      (''pv_po'', Some (pv_po data)),
      (''pv_T'', pv_T data),
      (''pv_eta'', pv_eta data)]"

definition to_point :: "'dt CBaseResponseData \<Rightarrow> 'dt InfluxDBPoint" where
  "to_point data =
     \<lparr>measurement = ''cbase'',
      tags = Some [(''system'', ''home'')],
      fields' = List.map_filter (\<lambda>(k, v). map_option (Pair k) v) (model_dump_exclude_Time_UTC data),
      time = Time_UTC data\<rparr>"

definition csv_to_influxdb_points :: "'dt lib \<Rightarrow> string \<Rightarrow> error + 'dt InfluxDBPoint list" where
  "csv_to_influxdb_points L csv_text =
     (case parse_csv L csv_text of
        Inl e \<Rightarrow> Inl e
      | Inr weather_data_list \<Rightarrow> Inr (map to_point weather_data_list))"


section \<open>Printing and the main program\<close>

text \<open>\<open>p.model_dump_json()\<close>: the point as compact JSON text, the fields in order.\<close>

definition json_object :: "'dt lib \<Rightarrow> (string \<times> string) list \<Rightarrow> string" where
  "json_object L items = ''{'' @ join '','' (map (\<lambda>(k, v). json_str L k @ '':'' @ v) items) @ ''}''"

definition model_dump_json :: "'dt lib \<Rightarrow> 'dt InfluxDBPoint \<Rightarrow> string" where
  "model_dump_json L p =
     json_object L
       [(''measurement'', json_str L (measurement p)),
        (''tags'',
           (case tags p of
              None \<Rightarrow> ''null''
            | Some t \<Rightarrow> json_object L (map (\<lambda>(k, v). (k, json_str L v)) t))),
        (''fields'', json_object L (map (\<lambda>(k, v). (k, json_float L v)) (fields' p))),
        (''time'', json_datetime L (time p))]"

text \<open>
  \<open>repr\<close> of a \<open>str\<close>: single quotes, unless the string has a single quote and no
  double quote; the quote and the backslash are escaped, and so is what is not printable.
\<close>

definition hex2 :: "nat \<Rightarrow> string" where
  "hex2 n = [''0123456789abcdef'' ! (n div 16 mod 16), ''0123456789abcdef'' ! (n mod 16)]"

definition py_printable :: "char \<Rightarrow> bool" where
  "py_printable c =
     (let n = (of_char c :: nat)
      in (32 \<le> n \<and> n < 127) \<or> (161 \<le> n \<and> n \<noteq> 173))"

definition repr_char :: "char \<Rightarrow> char \<Rightarrow> string" where
  "repr_char quote c =
     (if c = quote \<or> c = CHR 0x5C then [CHR 0x5C, c]
      else if c = CHR 0x09 then [CHR 0x5C, CHR ''t'']
      else if c = CHR 0x0A then [CHR 0x5C, CHR ''n'']
      else if c = CHR 0x0D then [CHR 0x5C, CHR ''r'']
      else if py_printable c then [c]
      else [CHR 0x5C, CHR ''x''] @ hex2 (of_char c))"

definition repr_str :: "string \<Rightarrow> string" where
  "repr_str s =
     (let quote = (if CHR 0x27 \<in> set s \<and> CHR 0x22 \<notin> set s then CHR 0x22 else CHR 0x27)
      in [quote] @ concat (map (repr_char quote) s) @ [quote])"

text \<open>\<open>print(xs)\<close> of a list of \<open>str\<close>: the \<open>repr\<close> of the list and a newline.\<close>

definition print_str_list :: "string list \<Rightarrow> string" where
  "print_str_list xs = ''['' @ join '', '' (map repr_str xs) @ '']'' @ [CHR 0x0A]"

record AppArgs =
  config_file :: string
  csv_file :: "string option"
  dry_run :: bool

text \<open>
  What the program does to the outside, in order: the files it opens and reads, the text
  it prints, the HTTP request, the log records and the calls of the InfluxDB client.
\<close>

datatype 'dt event =
  FileRead string
  | Print string
  | NewInfluxDBClient string int string
  | HttpGet string "(string \<times> param) list"
  | LogDebugResponse
  | LogDebugDryRun "'dt InfluxDBPoint list"
  | WritePoints "'dt InfluxDBPoint list" "string option"

text \<open>The outside: the contents of the files, the answer of the API, the database.\<close>

record 'dt world =
  read_file :: "string \<Rightarrow> error + string"
  http_get :: "string \<Rightarrow> (string \<times> param) list \<Rightarrow> error + string"
  write_points :: "'dt InfluxDBPoint list \<Rightarrow> string option \<Rightarrow> error option"

text \<open>A run: what happened, and the exception that ended it, if one did.\<close>

type_synonym 'dt outcome = "'dt event list \<times> error option"

definition API_URL :: "string \<Rightarrow> string" where
  "API_URL h = ''https://'' @ h @ ''/api/pvfcst_request''"

definition collect_data ::
  "'dt lib \<Rightarrow> 'dt world \<Rightarrow> string \<Rightarrow> CBaseConfig \<Rightarrow> InfluxDBConfig \<Rightarrow> bool \<Rightarrow> 'dt outcome" where
  "collect_data L W API_KEY cbase_config influx_config dry =
     (let params = query_params (system cbase_config) API_KEY;
          url = API_URL (api_host cbase_config)
      in case http_get W url params of
           Inl e \<Rightarrow> ([HttpGet url params], Some e)
         | Inr text \<Rightarrow>
             (case csv_to_influxdb_points L text of
                Inl e \<Rightarrow> ([HttpGet url params, LogDebugResponse], Some e)
              | Inr influxdb_points \<Rightarrow>
                  if dry
                  then ([HttpGet url params, LogDebugResponse, LogDebugDryRun influxdb_points],
                        None)
                  else ([HttpGet url params, LogDebugResponse,
                         WritePoints influxdb_points (retention_policy influx_config)],
                        write_points W influxdb_points (retention_policy influx_config))))"

definition run :: "'dt lib \<Rightarrow> 'dt world \<Rightarrow> string \<Rightarrow> AppArgs \<Rightarrow> 'dt outcome" where
  "run L W API_KEY args =
     (case read_file W (config_file args) of
        Inl e \<Rightarrow> ([FileRead (config_file args)], Some e)
      | Inr text \<Rightarrow>
          (case safe_load L text of
             Inl e \<Rightarrow> ([FileRead (config_file args)], Some e)
           | Inr config \<Rightarrow>
               (case load_AppConfig L config of
                  Inl e \<Rightarrow> ([FileRead (config_file args)], Some e)
                | Inr app_config \<Rightarrow>
                    (case collect_data L W API_KEY (cbase app_config) (influxdb app_config)
                            (dry_run args) of
                       (evs, e) \<Rightarrow>
                         (FileRead (config_file args) #
                          NewInfluxDBClient (host (influxdb app_config))
                            (port (influxdb app_config)) (database (influxdb app_config)) #
                          evs, e)))))"

text \<open>\<open>if app_args.csv_file:\<close> holds for a path that is not the empty string.\<close>

definition main :: "'dt lib \<Rightarrow> 'dt world \<Rightarrow> string \<Rightarrow> AppArgs \<Rightarrow> 'dt outcome" where
  "main L W API_KEY app_args =
     (case csv_file app_args of
        None \<Rightarrow> run L W API_KEY app_args
      | Some path \<Rightarrow>
          if path = [] then run L W API_KEY app_args
          else
            (case read_file W path of
               Inl e \<Rightarrow> ([FileRead path], Some e)
             | Inr csv_text \<Rightarrow>
                 (case csv_to_influxdb_points L csv_text of
                    Inl e \<Rightarrow> ([FileRead path], Some e)
                  | Inr points \<Rightarrow>
                      ([FileRead path, Print (print_str_list (map (model_dump_json L) points))],
                       None))))"


section \<open>An instance of the library functions\<close>

text \<open>
  The theorems hold for every choice of the library functions.  To run the model on
  examples, one choice is fixed here: numbers are read from plain decimal literals,
  floats are printed with one decimal place, a date is kept as its ISO text.
\<close>

definition is_digit :: "char \<Rightarrow> bool" where
  "is_digit c = (48 \<le> (of_char c :: nat) \<and> (of_char c :: nat) \<le> 57)"

definition decimal_nat :: "string \<Rightarrow> nat option" where
  "decimal_nat s =
     (if s \<noteq> [] \<and> list_all is_digit s
      then Some (foldl (\<lambda>n c. 10 * n + (of_char c - 48)) 0 s) else None)"

definition decimal_int :: "string \<Rightarrow> int option" where
  "decimal_int s =
     (case s of
        [] \<Rightarrow> None
      | c # r \<Rightarrow>
          if c = CHR ''-'' then map_option (\<lambda>n. - int n) (decimal_nat r)
          else map_option int (decimal_nat s))"

definition decimal_real :: "string \<Rightarrow> real option" where
  "decimal_real s =
     (case dropWhile (\<lambda>c. c \<noteq> CHR ''.'') s of
        [] \<Rightarrow> map_option real (decimal_nat s)
      | c # fr \<Rightarrow>
          (case (decimal_nat (takeWhile (\<lambda>c. c \<noteq> CHR ''.'') s), decimal_nat fr) of
             (Some a, Some b) \<Rightarrow> Some (real a + real b / 10 ^ length fr)
           | _ \<Rightarrow> None))"

definition decimal_float :: "string \<Rightarrow> pyfloat option" where
  "decimal_float s =
     (case s of
        [] \<Rightarrow> None
      | c # r \<Rightarrow>
          if c = CHR ''-'' then map_option (\<lambda>x. Finite (- x)) (decimal_real r)
          else map_option Finite (decimal_real s))"

fun digits_of_nat :: "nat \<Rightarrow> string" where
  "digits_of_nat n =
     (if n < 10 then [''0123456789'' ! n]
      else digits_of_nat (n div 10) @ [''0123456789'' ! (n mod 10)])"

fun tenths_json :: "pyfloat \<Rightarrow> string" where
  "tenths_json (Finite x) =
     (if x < 0 then ''-'' else []) @ digits_of_nat (nat \<lfloor>\<bar>x\<bar>\<rfloor>) @ ''.''
       @ digits_of_nat (nat \<lfloor>\<bar>x\<bar> * 10\<rfloor> mod 10)"
| "tenths_json f = ''null''"

definition iso_datetime :: "string \<Rightarrow> string option" where
  "iso_datetime s =
     (if length s = 19 \<and> s ! 4 = CHR ''-'' \<and> s ! 7 = CHR ''-'' \<and> s ! 10 = CHR ''T''
         \<and> s ! 13 = CHR '':'' \<and> s ! 16 = CHR '':''
      then Some s else None)"

definition quoted :: "string \<Rightarrow> string" where
  "quoted s = [CHR 0x22] @ s @ [CHR 0x22]"

definition sample_lib :: "string lib" where
  "sample_lib =
     \<lparr>py_float = decimal_float, str_float = decimal_float, str_int = decimal_int,
      str_datetime = iso_datetime, lax_enum = (\<lambda>v. None), safe_load = (\<lambda>s. Inl YAMLError),
      json_str = quoted, json_float = tenths_json, json_datetime = quoted\<rparr>"

definition sample_system :: "string \<rightharpoonup> yaml" where
  "sample_system =
     [''latitude'' \<mapsto> YFloat (Finite 60.2), ''longitude'' \<mapsto> YFloat (Finite 24.9),
      ''slope'' \<mapsto> YInt 30, ''azimuth'' \<mapsto> YInt 180, ''tracking'' \<mapsto> YInt 1,
      ''panel_output'' \<mapsto> YInt 300, ''panel_quantity'' \<mapsto> YInt 10,
      ''inverter_capacity'' \<mapsto> YInt 3000]"

definition sample_params :: CBaseSystemParams where
  "sample_params =
     \<lparr>latitude = Finite 60.2, longitude = Finite 24.9, slope = 30, azimuth = 180,
      tracking = Y_AXIS_TRACKING, panel_output = 300, panel_quantity = 10,
      inverter_capacity = 3000\<rparr>"

section \<open>Facts about validation\<close>

lemma ap_Ok_iff: "ap f x = Ok y \<longleftrightarrow> (\<exists>g a. f = Ok g \<and> x = Ok a \<and> y = g a)"
  by (cases f; cases x) auto

lemma ap_no_raise:
  "no_raise f \<Longrightarrow> no_raise x \<Longrightarrow>
     no_raise (ap f x) \<and> errors_of (ap f x) = errors_of f @ errors_of x"
  by (cases f; cases x) auto

lemma no_raise_Invalid: "no_raise r \<Longrightarrow> errors_of r \<noteq> [] \<Longrightarrow> r = Invalid (errors_of r)"
  by (cases r) auto

lemma at_loc_Ok_iff [simp]: "at_loc name r = Ok x \<longleftrightarrow> r = Ok x"
  by (cases r) auto

lemma at_loc_no_raise [simp]: "no_raise (at_loc name r) = no_raise r"
  by (cases r) auto

lemma required_upd:
  "required (d(k \<mapsto> v)) k' validator =
     (if k' = k then at_loc k (validator v) else required d k' validator)"
  by (simp add: required_def)

lemma with_default_upd:
  "with_default (d(k \<mapsto> v)) k' dflt validator =
     (if k' = k then at_loc k (validator v) else with_default d k' dflt validator)"
  by (simp add: with_default_def)

lemma required_del:
  "required (d(k := None)) k' validator =
     (if k' = k then Invalid [([k], missing)] else required d k' validator)"
  by (simp add: required_def)

lemma with_default_del:
  "with_default (d(k := None)) k' dflt validator =
     (if k' = k then Ok dflt else with_default d k' dflt validator)"
  by (simp add: with_default_def)

lemma required_no_raise:
  "(\<And>v. no_raise (validator v)) \<Longrightarrow> no_raise (required d k validator)"
  by (simp add: required_def split: option.splits)

lemma with_default_no_raise:
  "(\<And>v. no_raise (validator v)) \<Longrightarrow> no_raise (with_default d k dflt validator)"
  by (simp add: with_default_def split: option.splits)

lemma int_validator_no_raise [simp]: "no_raise (int_validator L v)"
  by (induction L v rule: int_validator.induct) (auto split: option.splits)

lemma float_validator_no_raise [simp]: "no_raise (float_validator L v)"
  by (induction L v rule: float_validator.induct) (auto split: option.splits)

lemma int_field_no_raise [simp]: "no_raise (int_field L lo hi v)"
  using int_validator_no_raise [of L v]
  by (cases "int_validator L v") (auto simp: int_field_def)

lemma float_field_no_raise [simp]: "no_raise (float_field L lo hi v)"
  using float_validator_no_raise [of L v]
  by (cases "float_validator L v") (auto simp: float_field_def)

lemma tracking_validator_no_raise [simp]: "no_raise (tracking_validator L v)"
  by (induction L v rule: tracking_validator.induct)
    (auto simp: tracking_of_int_def split: option.splits)

lemma int_field_YInt:
  "int_field L lo hi (YInt i) = Ok j \<longleftrightarrow> j = i \<and> lo \<le> i \<and> i \<le> hi"
  by (auto simp: int_field_def)

lemma validate_CBaseSystemParams_Ok:
  "validate_CBaseSystemParams L d = Ok s \<longleftrightarrow>
     required d ''latitude'' (float_field L (-90) 90) = Ok (latitude s) \<and>
     required d ''longitude'' (float_field L (-90) 90) = Ok (longitude s) \<and>
     required d ''slope'' (int_field L 0 90) = Ok (slope s) \<and>
     required d ''azimuth'' (int_field L 0 359) = Ok (azimuth s) \<and>
     with_default d ''tracking'' FIXED (tracking_validator L) = Ok (tracking s) \<and>
     required d ''panel_output'' (int_field L 0 1000) = Ok (panel_output s) \<and>
     required d ''panel_quantity'' (int_field L 0 1000) = Ok (panel_quantity s) \<and>
     with_default d ''inverter_capacity'' 0 (int_field L 0 100000) = Ok (inverter_capacity s)"
  by (cases s) (auto simp: validate_CBaseSystemParams_def ap_Ok_iff)

lemma validate_sample_system: "validate_CBaseSystemParams L sample_system = Ok sample_params"
  by (simp add: validate_CBaseSystemParams_def sample_system_def sample_params_def
      required_def with_default_def float_field_def int_field_def tracking_of_int_def)


section \<open>Facts about the reader\<close>

lemma splitlines_line:
  assumes "list_all (\<lambda>c. \<not> is_linebreak c) l"
  shows "splitlines (l @ CHR 0x0A # rest) = l # splitlines rest"
proof -
  have lb: "is_linebreak (CHR 0x0A)" by (simp add: is_linebreak_def)
  have tw: "takeWhile (\<lambda>x. \<not> is_linebreak x) (l @ CHR 0x0A # rest) = l"
    using assms lb by (induction l) auto
  have dw: "dropWhile (\<lambda>x. \<not> is_linebreak x) (l @ CHR 0x0A # rest) = CHR 0x0A # rest"
    using assms lb by (induction l) auto
  obtain c cs where e: "l @ CHR 0x0A # rest = c # cs" by (cases l) auto
  have "splitlines (c # cs) =
     takeWhile (\<lambda>x. \<not> is_linebreak x) (c # cs) #
       (case dropWhile (\<lambda>x. \<not> is_linebreak x) (c # cs) of
          [] \<Rightarrow> []
        | [b] \<Rightarrow> []
        | b # d # r \<Rightarrow>
            if b = CHR 0x0D \<and> d = CHR 0x0A then splitlines r else splitlines (d # r))"
    by (rule splitlines.simps(2))
  also have "\<dots> = l # splitlines rest"
    unfolding e [symmetric] tw dw by (cases rest) simp_all
  finally show ?thesis using e by simp
qed

lemma splitlines_lines:
  assumes "list_all (\<lambda>l. list_all (\<lambda>c. \<not> is_linebreak c) l) ls"
  shows "splitlines (concat (map (\<lambda>l. l @ [CHR 0x0A]) ls)) = ls"
  using assms
proof (induction ls)
  case Nil
  then show ?case by simp
next
  case (Cons l ls)
  then show ?case using splitlines_line [of l "concat (map (\<lambda>l. l @ [CHR 0x0A]) ls)"]
    by simp
qed


lemma plain_char_simps:
  "plain_char c \<Longrightarrow> c \<noteq> CHR '','' \<and> c \<noteq> CHR 0x22 \<and> \<not> is_newline (Some c) \<and> \<not> is_linebreak c"
  by (auto simp: plain_char_def is_newline_def is_linebreak_def)

lemma rd_field_same [simp]: "rd_field r = x \<Longrightarrow> r\<lparr>rd_field := x\<rparr> = r"
  by (cases r) simp

lemma rd_state_same [simp]: "rd_state r = x \<Longrightarrow> r\<lparr>rd_state := x\<rparr> = r"
  by (cases r) simp

lemma in_field_chars:
  assumes "rd_state r = IN_FIELD" "list_all plain_char s"
    "length (rd_field r) + length s \<le> field_limit"
  shows "process_line r (s @ rest) = process_line (r\<lparr>rd_field := rd_field r @ s\<rparr>) rest"
  using assms
proof (induction s arbitrary: r)
  case Nil
  then show ?case by simp
next
  case (Cons c s)
  have c: "c \<noteq> CHR '',''" "\<not> is_newline (Some c)"
    using Cons.prems(2) plain_char_simps [of c] by auto
  let ?r = "r\<lparr>rd_field := rd_field r @ [c]\<rparr>"
  have step: "parse_process_char r (Some c) = Inr ?r"
    using Cons.prems c by (simp add: parse_add_char_def)
  have "process_line ?r (s @ rest) = process_line (?r\<lparr>rd_field := rd_field ?r @ s\<rparr>) rest"
    using Cons.prems by (intro Cons.IH) auto
  then show ?case using step by simp
qed

lemma start_field_cell_comma:
  assumes "rd_state r = START_FIELD" "rd_field r = []" "plain_cell s"
  shows "process_line r (s @ CHR '','' # rest)
           = process_line (r\<lparr>rd_fields := rd_fields r @ [s]\<rparr>) rest"
proof (cases s)
  case Nil
  then show ?thesis using assms
    by (simp add: start_field_def is_newline_def parse_save_field_def)
next
  case (Cons c s')
  have c: "c \<noteq> CHR '',''" "c \<noteq> CHR 0x22" "\<not> is_newline (Some c)"
    using assms(3) Cons plain_char_simps [of c] by (auto simp: plain_cell_def)
  have len: "length s \<le> field_limit" and pl: "list_all plain_char s'"
    using assms(3) Cons by (auto simp: plain_cell_def)
  let ?r1 = "r\<lparr>rd_field := [c], rd_state := IN_FIELD\<rparr>"
  have lim: "0 < field_limit" by (simp add: field_limit_def)
  have step: "parse_process_char r (Some c) = Inr ?r1"
    using assms(1,2) c lim by (simp add: start_field_def parse_add_char_def set_state_def)
  have "process_line ?r1 (s' @ CHR '','' # rest)
          = process_line (?r1\<lparr>rd_field := rd_field ?r1 @ s'\<rparr>) (CHR '','' # rest)"
    using pl len Cons by (intro in_field_chars) auto
  also have "\<dots> = process_line (r\<lparr>rd_fields := rd_fields r @ [s]\<rparr>) rest"
    using assms(1,2) Cons by (simp add: is_newline_def parse_save_field_def)
  finally show ?thesis using step Cons by simp
qed

lemma start_field_last_cell:
  assumes "rd_state r = START_FIELD" "rd_field r = []" "plain_cell s"
  shows "process_line r s
           = Inr (r\<lparr>rd_fields := rd_fields r @ [s], rd_state := START_RECORD\<rparr>)"
proof (cases s)
  case Nil
  then show ?thesis using assms
    by (simp add: start_field_def parse_save_field_def)
next
  case (Cons c s')
  have c: "c \<noteq> CHR '',''" "c \<noteq> CHR 0x22" "\<not> is_newline (Some c)"
    using assms(3) Cons plain_char_simps [of c] by (auto simp: plain_cell_def)
  have len: "length s \<le> field_limit" and pl: "list_all plain_char s'"
    using assms(3) Cons by (auto simp: plain_cell_def)
  let ?r1 = "r\<lparr>rd_field := [c], rd_state := IN_FIELD\<rparr>"
  have lim: "0 < field_limit" by (simp add: field_limit_def)
  have step: "parse_process_char r (Some c) = Inr ?r1"
    using assms(1,2) c lim by (simp add: start_field_def parse_add_char_def set_state_def)
  have "process_line ?r1 (s' @ [])
          = process_line (?r1\<lparr>rd_field := rd_field ?r1 @ s'\<rparr>) []"
    using pl len Cons by (intro in_field_chars) auto
  also have "\<dots> = Inr (r\<lparr>rd_fields := rd_fields r @ [s], rd_state := START_RECORD\<rparr>)"
    using assms(1,2) Cons by (simp add: parse_save_field_def)
  finally show ?thesis using step Cons by simp
qed

lemma start_field_cells:
  assumes "rd_state r = START_FIELD" "rd_field r = []" "list_all plain_cell cells" "cells \<noteq> []"
  shows "process_line r (csv_line cells)
           = Inr (r\<lparr>rd_fields := rd_fields r @ cells, rd_state := START_RECORD\<rparr>)"
  using assms
proof (induction cells arbitrary: r)
  case Nil
  then show ?case by simp
next
  case (Cons s cells)
  show ?case
  proof (cases cells)
    case Nil
    then show ?thesis
      using Cons.prems start_field_last_cell [of r s] by (simp add: csv_line_def)
  next
    case (Cons s2 cells2)
    let ?r = "r\<lparr>rd_fields := rd_fields r @ [s]\<rparr>"
    have "process_line r (csv_line (s # cells)) = process_line ?r (csv_line cells)"
      using Cons.prems Cons start_field_cell_comma [of r s "csv_line cells"]
      by (simp add: csv_line_def)
    also have "\<dots> = Inr (?r\<lparr>rd_fields := rd_fields ?r @ cells, rd_state := START_RECORD\<rparr>)"
      using Cons.prems Cons by (intro Cons.IH) auto
    finally show ?thesis by simp
  qed
qed


lemma csv_line_chars:
  "list_all plain_cell cells \<Longrightarrow> list_all (\<lambda>c. plain_char c \<or> c = CHR '','') (csv_line cells)"
  unfolding csv_line_def
proof (induction "'',''" cells rule: join.induct)
  case 1
  then show ?case by simp
next
  case (2 x)
  then show ?case by (auto simp: plain_cell_def list_all_iff)
next
  case (3 x y ys)
  then show ?case by (auto simp: plain_cell_def list_all_iff)
qed

lemma csv_line_no_linebreak:
  "list_all plain_cell cells \<Longrightarrow> list_all (\<lambda>c. \<not> is_linebreak c) (csv_line cells)"
  using csv_line_chars [of cells]
  by (auto simp: list_all_iff plain_char_def is_linebreak_def)

lemma csv_line_nonempty: "plain_record cells \<Longrightarrow> csv_line cells \<noteq> []"
  unfolding csv_line_def plain_record_def
  by (cases "('','', cells)" rule: join.cases) auto

lemma process_line_record:
  assumes "plain_record cells"
  shows "process_line parse_reset (csv_line cells)
           = Inr \<lparr>rd_state = START_RECORD, rd_field = [], rd_fields = cells\<rparr>"
proof -
  obtain c cs where l: "csv_line cells = c # cs"
    using csv_line_nonempty [OF assms] by (cases "csv_line cells") auto
  have pc: "list_all plain_cell cells" "cells \<noteq> []"
    using assms by (auto simp: plain_record_def)
  have "plain_char c \<or> c = CHR '',''"
    using csv_line_chars [OF pc(1)] l by simp
  then have nn: "\<not> is_newline (Some c)"
    by (auto simp: plain_char_def is_newline_def is_linebreak_def)
  let ?r = "parse_reset\<lparr>rd_state := START_FIELD\<rparr>"
  have "parse_process_char parse_reset (Some c) = parse_process_char ?r (Some c)"
    using nn by (simp add: parse_reset_def)
  then have "process_line parse_reset (c # cs) = process_line ?r (c # cs)"
    by simp
  also have "\<dots> = Inr (?r\<lparr>rd_fields := rd_fields ?r @ cells, rd_state := START_RECORD\<rparr>)"
    unfolding l [symmetric] using pc by (intro start_field_cells) (auto simp: parse_reset_def)
  finally show ?thesis using l by (simp add: parse_reset_def)
qed

lemma reader_records_plain:
  "list_all plain_record recs \<Longrightarrow> reader_records parse_reset (map csv_line recs) = (recs, None)"
proof (induction recs)
  case Nil
  then show ?case by (simp add: parse_reset_def)
next
  case (Cons r recs)
  then show ?case using process_line_record [of r] by simp
qed

lemma splitlines_plain_csv:
  assumes "list_all plain_record recs"
  shows "splitlines (plain_csv recs) = map csv_line recs"
proof -
  have "list_all (\<lambda>l. list_all (\<lambda>c. \<not> is_linebreak c) l) (map csv_line recs)"
    using assms csv_line_no_linebreak by (auto simp: list_all_iff plain_record_def)
  then have "splitlines (concat (map (\<lambda>l. l @ [CHR 0x0A]) (map csv_line recs))) = map csv_line recs"
    by (rule splitlines_lines)
  then show ?thesis by (simp add: plain_csv_def comp_def)
qed

lemma splitlines_single:
  assumes "l \<noteq> []" "list_all (\<lambda>c. \<not> is_linebreak c) l"
  shows "splitlines l = [l]"
proof -
  obtain c cs where e: "l = c # cs" using assms(1) by (cases l) auto
  have tw: "takeWhile (\<lambda>x. \<not> is_linebreak x) (c # cs) = c # cs"
    using assms(2) e by (simp add: list_all_iff)
  have dw: "dropWhile (\<lambda>x. \<not> is_linebreak x) (c # cs) = []"
    using assms(2) e by (simp add: list_all_iff)
  have "splitlines (c # cs) =
     takeWhile (\<lambda>x. \<not> is_linebreak x) (c # cs) #
       (case dropWhile (\<lambda>x. \<not> is_linebreak x) (c # cs) of
          [] \<Rightarrow> []
        | [b] \<Rightarrow> []
        | b # d # r \<Rightarrow>
            if b = CHR 0x0D \<and> d = CHR 0x0A then splitlines r else splitlines (d # r))"
    by (rule splitlines.simps(2))
  also have "\<dots> = [c # cs]"
    unfolding tw dw by simp
  finally show ?thesis using e by simp
qed

lemma splitlines_butlast_lines:
  assumes "list_all (\<lambda>l. l \<noteq> [] \<and> list_all (\<lambda>c. \<not> is_linebreak c) l) ls"
  shows "splitlines (butlast (concat (map (\<lambda>l. l @ [CHR 0x0A]) ls))) = ls"
  using assms
proof (induction ls)
  case Nil
  then show ?case by simp
next
  case (Cons l ls)
  show ?case
  proof (cases ls)
    case Nil
    then show ?thesis using Cons.prems splitlines_single [of l] by simp
  next
    case (Cons l2 ls2)
    then have "butlast (concat (map (\<lambda>l. l @ [CHR 0x0A]) (l # ls)))
                 = l @ CHR 0x0A # butlast (concat (map (\<lambda>l. l @ [CHR 0x0A]) ls))"
      by (simp add: butlast_append)
    then show ?thesis
      using Cons.prems Cons.IH splitlines_line [of l] by simp
  qed
qed

lemma splitlines_butlast_plain_csv:
  assumes "list_all plain_record recs"
  shows "splitlines (butlast (plain_csv recs)) = map csv_line recs"
proof -
  have "list_all (\<lambda>l. l \<noteq> [] \<and> list_all (\<lambda>c. \<not> is_linebreak c) l) (map csv_line recs)"
    using assms csv_line_no_linebreak csv_line_nonempty
    by (auto simp: list_all_iff plain_record_def)
  then have "splitlines (butlast (concat (map (\<lambda>l. l @ [CHR 0x0A]) (map csv_line recs))))
               = map csv_line recs"
    by (rule splitlines_butlast_lines)
  then show ?thesis by (simp add: plain_csv_def comp_def)
qed

lemma DictReader_plain_csv:
  assumes "plain_record fieldnames" "list_all plain_record recs"
    and "csv = plain_csv (fieldnames # recs) \<or> csv = butlast (plain_csv (fieldnames # recs))"
  shows "DictReader (reader (splitlines csv)) = (map (dict_row fieldnames) recs, None)"
proof -
  have "splitlines csv = map csv_line (fieldnames # recs)"
    using assms splitlines_plain_csv [of "fieldnames # recs"]
      splitlines_butlast_plain_csv [of "fieldnames # recs"]
    by auto
  then have "reader (splitlines csv) = (fieldnames # recs, None)"
    using assms reader_records_plain [of "fieldnames # recs"]
    by (simp add: reader_def)
  moreover have "filter (\<lambda>r. r \<noteq> []) recs = recs"
    using assms(2) by (auto simp: list_all_iff plain_record_def intro: filter_True)
  ultimately show ?thesis by simp
qed

lemma DictReader_empty: "DictReader (reader (splitlines [])) = ([], None)"
  by (simp add: reader_def parse_reset_def)

section \<open>The configuration: claims\<close>

lemma validate_CBaseSystemParams_errors:
  "no_raise (validate_CBaseSystemParams L d) \<and>
   errors_of (validate_CBaseSystemParams L d) =
     errors_of (required d ''latitude'' (float_field L (-90) 90)) @
     errors_of (required d ''longitude'' (float_field L (-90) 90)) @
     errors_of (required d ''slope'' (int_field L 0 90)) @
     errors_of (required d ''azimuth'' (int_field L 0 359)) @
     errors_of (with_default d ''tracking'' FIXED (tracking_validator L)) @
     errors_of (required d ''panel_output'' (int_field L 0 1000)) @
     errors_of (required d ''panel_quantity'' (int_field L 0 1000)) @
     errors_of (with_default d ''inverter_capacity'' 0 (int_field L 0 100000))"
  unfolding validate_CBaseSystemParams_def
  by (simp add: ap_no_raise required_no_raise with_default_no_raise)

text \<open>
  Claim C5.  Latitudes from -90 to 90 and longitudes from -180 to 180 are accepted.
  The code bounds the longitude by -90 and 90 as well: a configuration that is valid but
  for its longitude of 100 degrees is rejected, with a \<open>less_than_equal\<close> entry for
  \<open>longitude\<close>.
\<close>

theorem longitude_100_rejected:
  "validate_CBaseSystemParams L
     [''latitude'' \<mapsto> YFloat (Finite 60), ''longitude'' \<mapsto> YFloat (Finite 100),
      ''slope'' \<mapsto> YInt 30, ''azimuth'' \<mapsto> YInt 180,
      ''panel_output'' \<mapsto> YInt 300, ''panel_quantity'' \<mapsto> YInt 10]
   = Invalid [([''longitude''], less_than_equal)]"
  by (simp add: validate_CBaseSystemParams_def required_def with_default_def
      float_field_def int_field_def)

text \<open>
  Claim C6.  An \<open>influxdb\<close> section with the host alone loads, the retention policy
  being optional.  In the code \<open>retention_policy\<close> has no default, so the section is
  rejected with a \<open>missing\<close> entry; it loads once the key is present, with the null
  value, and then the port is 8086 and the database \<open>cbase\<close>.
\<close>

theorem influxdb_host_only_rejected:
  "validate_InfluxDBConfig L [''host'' \<mapsto> YStr h]
     = Invalid [([''retention_policy''], missing)]
   \<and> validate_InfluxDBConfig L [''host'' \<mapsto> YStr h, ''retention_policy'' \<mapsto> YNull]
     = Ok \<lparr>host = h, port = 8086, database = ''cbase'', retention_policy = None\<rparr>"
  by (simp add: validate_InfluxDBConfig_def required_def with_default_def)

text \<open>
  Claim C7, as amended.  Starting from any system section that loads, setting the panel
  output or the panel quantity to an integer gives a section that loads exactly when the
  integer is between 0 and 1000, and setting the inverter capacity gives one that loads
  exactly when it is between 0 and 100000.  Negative values are rejected, and so are
  values above the upper bound, which the claim as stated takes to be accepted.
\<close>

theorem panel_fields_accepted_iff:
  assumes "validate_CBaseSystemParams L d = Ok s"
  shows "((\<exists>s'. validate_CBaseSystemParams L (d(''panel_output'' \<mapsto> YInt i)) = Ok s')
            = (0 \<le> i \<and> i \<le> 1000))
       \<and> ((\<exists>s'. validate_CBaseSystemParams L (d(''panel_quantity'' \<mapsto> YInt i)) = Ok s')
            = (0 \<le> i \<and> i \<le> 1000))
       \<and> ((\<exists>s'. validate_CBaseSystemParams L (d(''inverter_capacity'' \<mapsto> YInt i)) = Ok s')
            = (0 \<le> i \<and> i \<le> 100000))"
proof -
  have 1: "validate_CBaseSystemParams L (d(''panel_output'' \<mapsto> YInt i)) = Ok (s\<lparr>panel_output := i\<rparr>)"
    if "0 \<le> i" "i \<le> 1000"
    using assms that
    by (auto simp: validate_CBaseSystemParams_Ok required_upd with_default_upd int_field_YInt)
  have 2: "validate_CBaseSystemParams L (d(''panel_quantity'' \<mapsto> YInt i)) = Ok (s\<lparr>panel_quantity := i\<rparr>)"
    if "0 \<le> i" "i \<le> 1000"
    using assms that
    by (auto simp: validate_CBaseSystemParams_Ok required_upd with_default_upd int_field_YInt)
  have 3: "validate_CBaseSystemParams L (d(''inverter_capacity'' \<mapsto> YInt i)) = Ok (s\<lparr>inverter_capacity := i\<rparr>)"
    if "0 \<le> i" "i \<le> 100000"
    using assms that
    by (auto simp: validate_CBaseSystemParams_Ok required_upd with_default_upd int_field_YInt)
  have 4: "0 \<le> i \<and> i \<le> 1000"
    if "validate_CBaseSystemParams L (d(''panel_output'' \<mapsto> YInt i)) = Ok s'" for s'
    using that by (auto simp: validate_CBaseSystemParams_Ok required_upd int_field_YInt)
  have 5: "0 \<le> i \<and> i \<le> 1000"
    if "validate_CBaseSystemParams L (d(''panel_quantity'' \<mapsto> YInt i)) = Ok s'" for s'
    using that by (auto simp: validate_CBaseSystemParams_Ok required_upd int_field_YInt)
  have 6: "0 \<le> i \<and> i \<le> 100000"
    if "validate_CBaseSystemParams L (d(''inverter_capacity'' \<mapsto> YInt i)) = Ok s'" for s'
    using that by (auto simp: validate_CBaseSystemParams_Ok with_default_upd int_field_YInt)
  show ?thesis using 1 2 3 4 5 6 by blast
qed

theorem panel_fields_accepted_iff_witness:
  "(\<exists>s'. validate_CBaseSystemParams sample_lib (sample_system(''panel_output'' \<mapsto> YInt 1000)) = Ok s')
   \<and> (\<exists>s'. validate_CBaseSystemParams sample_lib (sample_system(''panel_quantity'' \<mapsto> YInt 0)) = Ok s')
   \<and> \<not> (\<exists>s'. validate_CBaseSystemParams sample_lib (sample_system(''inverter_capacity'' \<mapsto> YInt (-1))) = Ok s')"
  using panel_fields_accepted_iff [OF validate_sample_system, of sample_lib 1000]
    panel_fields_accepted_iff [OF validate_sample_system, of sample_lib 0]
    panel_fields_accepted_iff [OF validate_sample_system, of sample_lib "-1"]
  by simp

text \<open>
  Claim C7 as stated fails: a panel output of 1001 is not negative and is rejected.
\<close>

theorem panel_output_1001_rejected:
  "validate_CBaseSystemParams sample_lib (sample_system(''panel_output'' \<mapsto> YInt 1001))
     = Invalid [([''panel_output''], less_than_equal)]"
  by (simp add: validate_CBaseSystemParams_def sample_system_def
      required_def with_default_def float_field_def int_field_def tracking_of_int_def)

text \<open>
  Claim C9.  The query parameters of the GET are, in order, \<open>lat\<close>, \<open>lon\<close>, \<open>slope\<close>,
  \<open>azi\<close>, \<open>tracking\<close>, \<open>panel_out\<close>, \<open>panel_qty\<close>, \<open>inv_cap\<close> and \<open>apikey\<close>; the
  tracking mode is the enumeration member, whose integer value is between 0 and 3; the
  API key is the one given; the internal names \<open>latitude\<close> and \<open>azimuth\<close> are no keys.
\<close>

theorem query_params_wire_names:
  "map fst (query_params s API_KEY)
     = [''lat'', ''lon'', ''slope'', ''azi'', ''tracking'', ''panel_out'', ''panel_qty'',
        ''inv_cap'', ''apikey'']
   \<and> map_of (query_params s API_KEY) ''tracking'' = Some (PTracking (tracking s))
   \<and> 0 \<le> int_value (tracking s) \<and> int_value (tracking s) \<le> 3
   \<and> map_of (query_params s API_KEY) ''apikey'' = Some (PStr API_KEY)
   \<and> map_of (query_params s API_KEY) ''latitude'' = None
   \<and> map_of (query_params s API_KEY) ''azimuth'' = None"
  by (cases "tracking s") (simp_all add: query_params_def model_dump_by_alias_def)

text \<open>
  Claim C10.  From a system section that loads, leaving out \<open>tracking\<close> gives the same
  parameters with the tracking mode \<open>FIXED\<close>, whose integer value is 0; leaving out
  \<open>inverter_capacity\<close> gives the same parameters with an inverter capacity of 0;
  leaving out any of the six other keys is rejected, with a \<open>missing\<close> entry for that
  key.
\<close>

theorem system_params_omitted_fields:
  assumes "validate_CBaseSystemParams L d = Ok s"
  shows "validate_CBaseSystemParams L (d(''tracking'' := None)) = Ok (s\<lparr>tracking := FIXED\<rparr>)
       \<and> int_value FIXED = 0
       \<and> validate_CBaseSystemParams L (d(''inverter_capacity'' := None))
           = Ok (s\<lparr>inverter_capacity := 0\<rparr>)
       \<and> (\<forall>k \<in> {''latitude'', ''longitude'', ''slope'', ''azimuth'', ''panel_output'',
                  ''panel_quantity''}.
            \<exists>es. validate_CBaseSystemParams L (d(k := None)) = Invalid es
                 \<and> ([k], missing) \<in> set es)"
proof -
  have a: "validate_CBaseSystemParams L (d(''tracking'' := None)) = Ok (s\<lparr>tracking := FIXED\<rparr>)"
    using assms by (auto simp: validate_CBaseSystemParams_Ok required_del with_default_del)
  have b: "validate_CBaseSystemParams L (d(''inverter_capacity'' := None))
           = Ok (s\<lparr>inverter_capacity := 0\<rparr>)"
    using assms by (auto simp: validate_CBaseSystemParams_Ok required_del with_default_del)
  have c: "\<exists>es. validate_CBaseSystemParams L (d(k := None)) = Invalid es \<and> ([k], missing) \<in> set es"
    if "k \<in> {''latitude'', ''longitude'', ''slope'', ''azimuth'', ''panel_output'',
                  ''panel_quantity''}" for k
  proof -
    let ?v = "validate_CBaseSystemParams L (d(k := None))"
    have "([k], missing) \<in> set (errors_of ?v)"
      using that by (auto simp: validate_CBaseSystemParams_errors required_del)
    moreover have "no_raise ?v" by (simp add: validate_CBaseSystemParams_errors)
    ultimately show ?thesis
      using no_raise_Invalid [of ?v] by (cases "errors_of ?v = []") auto
  qed
  show ?thesis using a b c by simp
qed

theorem system_params_omitted_fields_witness:
  "validate_CBaseSystemParams sample_lib (sample_system(''tracking'' := None))
     = Ok (sample_params\<lparr>tracking := FIXED\<rparr>)
   \<and> validate_CBaseSystemParams sample_lib (sample_system(''inverter_capacity'' := None))
     = Ok (sample_params\<lparr>inverter_capacity := 0\<rparr>)
   \<and> (\<exists>es. validate_CBaseSystemParams sample_lib (sample_system(''slope'' := None)) = Invalid es
          \<and> ([''slope''], missing) \<in> set es)"
  using system_params_omitted_fields [OF validate_sample_system, of sample_lib]
  by simp

end
